theory Spec2Isabelle
  imports Main "HOL-Library.AList"
begin

section \<open>The deployer trait of pkg/trait/deployer.go\<close>

subsection \<open>Documents and errors\<close>

text \<open>
  A resource (a Go \<open>runtime.Object\<close>) is represented by the document that
  \<open>json.Marshal\<close> writes for it: a tree of objects, arrays and scalars. An object is its
  list of members; a member is looked up by key with \<open>map_of\<close>. \<open>JNull\<close> is the null
  marker of a merge patch. Numbers are integers.
\<close>

datatype json =
    JNull
  | JBool bool
  | JNum int
  | JStr string
  | JArr "json list"
  | JObj "(string \<times> json) list"

type_synonym ObjectKey = "string \<times> string"

datatype error =
    ErrBadJSONDoc
  | UnmarshalTypeError
  | NilDereference
  | AccessorError
  | NotFound ObjectKey
  | TransportError string
  | Wrap error string

subsection \<open>The patch codec\<close>

text \<open>
  The packages \<open>k8s.io/apimachinery/pkg/util/json\<close> and
  \<open>github.com/evanphx/json-patch\<close> are imported by the source and are not part of it.
  Sections 4.4 and 4.5 of the specification fix what the source uses of them: the raw
  merge-patch delta \<open>diff\<close> and the fold of a delta into an object, \<open>foldApply\<close>.
\<close>

text \<open>
  Modelled from the spec: \<open>jsonpatch.CreateMergePatch\<close> with its recursion \<open>getDiff\<close>,
  the \<open>diff\<close> of section 4.4, step 2. A changed or added key carries the new value, a
  key of the original that the modified document lacks carries the null marker, nested
  objects are compared recursively and only a non-empty nested delta is kept, arrays and
  scalars are compared as a whole. A document that is not an object has no delta.
\<close>

fun same_kind :: "json \<Rightarrow> json \<Rightarrow> bool" where
  "same_kind JNull JNull = True"
| "same_kind (JBool _) (JBool _) = True"
| "same_kind (JNum _) (JNum _) = True"
| "same_kind (JStr _) (JStr _) = True"
| "same_kind (JArr _) (JArr _) = True"
| "same_kind (JObj _) (JObj _) = True"
| "same_kind _ _ = False"

fun deleted :: "(string \<times> json) list \<Rightarrow> (string \<times> json) list \<Rightarrow> (string \<times> json) list" where
  "deleted [] b = []"
| "deleted ((key, av) # a) b =
     (case map_of b key of
        None \<Rightarrow> (key, JNull) # deleted a b
      | Some _ \<Rightarrow> deleted a b)"

fun getDiff :: "(string \<times> json) list \<Rightarrow> (string \<times> json) list \<Rightarrow> (string \<times> json) list"
  and changed :: "(string \<times> json) list \<Rightarrow> (string \<times> json) list \<Rightarrow> (string \<times> json) list"
  and entry :: "json option \<Rightarrow> string \<Rightarrow> json \<Rightarrow> (string \<times> json) list"
where
  "getDiff a b = changed a b @ deleted a b"
| "changed a [] = []"
| "changed a ((key, bv) # b) = entry (map_of a key) key bv @ changed a b"
| "entry None key bv = [(key, bv)]"
| "entry (Some (JObj at)) key (JObj bt) =
     (let dst = getDiff at bt in if dst \<noteq> [] then [(key, JObj dst)] else [])"
| "entry (Some av) key bv =
     (if \<not> same_kind av bv then [(key, bv)]
      else if av \<noteq> bv then [(key, bv)]
      else [])"

fun CreateMergePatch :: "json \<Rightarrow> json \<Rightarrow> error + json" where
  "CreateMergePatch (JObj a) (JObj b) = Inr (JObj (getDiff a b))"
| "CreateMergePatch _ _ = Inl ErrBadJSONDoc"

text \<open>
  Modelled from the spec: the fold of a delta into an object, \<open>foldApply\<close> of sections 4.4
  (step 3) and 4.5, with the standard semantics of a merge patch. A null marker removes
  the key if it is present and does nothing otherwise, an object is merged member by
  member (into the empty object when the target value is not an object), any other value
  replaces the target value. \<open>json.Unmarshal\<close> of a patch into an existing object is
  this fold.
\<close>

fun foldApply :: "json \<Rightarrow> json \<Rightarrow> json"
  and foldMembers :: "(string \<times> json) list \<Rightarrow> (string \<times> json) list \<Rightarrow> (string \<times> json) list"
where
  "foldApply target (JObj ps) =
     JObj (foldMembers (case target of JObj ts \<Rightarrow> ts | _ \<Rightarrow> []) ps)"
| "foldApply target JNull = JNull"
| "foldApply target (JBool b) = JBool b"
| "foldApply target (JNum n) = JNum n"
| "foldApply target (JStr s) = JStr s"
| "foldApply target (JArr xs) = JArr xs"
| "foldMembers ts [] = ts"
| "foldMembers ts ((key, v) # ps) =
     (if v = JNull then foldMembers (AList.delete key ts) ps
      else foldMembers
             (AList.update key
                (foldApply (case map_of ts key of None \<Rightarrow> JNull | Some t \<Rightarrow> t) v) ts)
             ps)"

fun Unmarshal :: "json \<Rightarrow> json \<Rightarrow> error + json" where
  "Unmarshal (JObj ps) out = Inr (foldApply out (JObj ps))"
| "Unmarshal _ out = Inl UnmarshalTypeError"

subsection \<open>Objects in memory and the positive patch\<close>

text \<open>
  Go passes resources by reference. The heap is the list of the documents of the objects
  in memory, a reference is an index into it. \<open>DeepCopyObject\<close> allocates a new object;
  \<open>json.Unmarshal\<close> writes into the object it is given. A reference outside the heap is
  a nil object: the source never passes one, and the model reports it as an error.
\<close>

type_synonym heap = "json list"

record mergeFromPositivePatch =
  "from" :: nat

datatype PatchType = MergePatchType

definition Type :: "mergeFromPositivePatch \<Rightarrow> PatchType" where
  "Type s = MergePatchType"

text \<open>
  Modelled from the spec: \<open>json.Marshal\<close>, the \<open>serialize\<close> of section 4.5, reads the
  document of an object; \<open>DeepCopyObject\<close>, the structural deep copy of section 4.4,
  step 3, allocates a new object with the same document.
\<close>

definition Marshal :: "heap \<Rightarrow> nat \<Rightarrow> error + json" where
  "Marshal h a = (if a < length h then Inr (h ! a) else Inl NilDereference)"

definition DeepCopyObject :: "heap \<Rightarrow> nat \<Rightarrow> (heap \<times> nat) option" where
  "DeepCopyObject h a = (if a < length h then Some (h @ [h ! a], length h) else None)"

text \<open>
  The method \<open>Data\<close> of \<open>mergeFromPositivePatch\<close> (lines 111 to 138): it returns the
  bytes of the patch, or the error, and the heap it leaves.
\<close>

definition Data :: "heap \<Rightarrow> mergeFromPositivePatch \<Rightarrow> nat \<Rightarrow> (error + json) \<times> heap" where
  "Data h s obj =
     (case Marshal h (from s) of
        Inl err \<Rightarrow> (Inl err, h)
      | Inr originalJSON \<Rightarrow>
     (case Marshal h obj of
        Inl err \<Rightarrow> (Inl err, h)
      | Inr modifiedJSON \<Rightarrow>
     (case CreateMergePatch originalJSON modifiedJSON of
        Inl err \<Rightarrow> (Inl err, h)
      | Inr patch \<Rightarrow>
     (case DeepCopyObject h obj of
        None \<Rightarrow> (Inl NilDereference, h)
      | Some (h1, out) \<Rightarrow>
     (case Unmarshal patch (h1 ! out) of
        Inl err \<Rightarrow> (Inl err, h1)
      | Inr v \<Rightarrow> (let h2 = h1[out := v] in (Marshal h2 out, h2)))))))"

definition mergeFrom :: "nat \<Rightarrow> mergeFromPositivePatch" where
  "mergeFrom obj = \<lparr> from = obj \<rparr>"

text \<open>
  The bytes that \<open>mergeFrom(object).Data(resource)\<close> returns when \<open>object\<close> and
  \<open>resource\<close> are the only two objects in memory.
\<close>

definition computePatch :: "json \<Rightarrow> json \<Rightarrow> error + json" where
  "computePatch L D = fst (Data [L, D] (mergeFrom 0) 1)"

subsection \<open>The live store\<close>

text \<open>
  The client of the live store (\<open>sigs.k8s.io/controller-runtime\<close>) and
  \<open>kubernetes.ReplaceResources\<close> are not part of the source; section 6 of the
  specification gives their contracts. The store maps an identity (namespace and name,
  read from the \<open>metadata\<close> of the document) to the live document; \<open>faults\<close> holds
  the failures of the transport, per operation and identity. A patch of type merge is
  applied by the store with \<open>foldApply\<close>.
\<close>

text \<open>Modelled from the spec: the state of the store behind the client.\<close>

datatype verb = VGet | VPatch | VReplace

record ClientState =
  live :: "ObjectKey \<Rightarrow> json option"
  faults :: "verb \<Rightarrow> ObjectKey \<Rightarrow> error option"

text \<open>
  Modelled from the spec: \<open>client.ObjectKeyFromObject\<close>, the identity of a resource. It
  fails for an object without metadata; a missing namespace or name is the empty string.
\<close>

fun member :: "json \<Rightarrow> string \<Rightarrow> json option" where
  "member (JObj kvs) key = map_of kvs key"
| "member _ key = None"

fun text_of :: "json option \<Rightarrow> string" where
  "text_of (Some (JStr s)) = s"
| "text_of _ = []"

definition ObjectKeyFromObject :: "json \<Rightarrow> error + ObjectKey" where
  "ObjectKeyFromObject obj =
     (case member obj ''metadata'' of
        Some (JObj m) \<Rightarrow> Inr (text_of (map_of m ''namespace''), text_of (map_of m ''name''))
      | _ \<Rightarrow> Inl AccessorError)"

text \<open>
  Modelled from the spec: \<open>Client.Get\<close>, \<open>getLive(identity) -> LiveResource | NotFound\<close>.
\<close>

definition Client_Get :: "ClientState \<Rightarrow> ObjectKey \<Rightarrow> error + json" where
  "Client_Get c key =
     (case faults c VGet key of
        Some err \<Rightarrow> Inl err
      | None \<Rightarrow> (case live c key of None \<Rightarrow> Inl (NotFound key) | Some d \<Rightarrow> Inr d))"

text \<open>
  Modelled from the spec: \<open>Client.Patch\<close>, \<open>applyPatch(identity, Patch) -> ok | error\<close>.
  The client asks the patch for its data, with \<open>object\<close> as the \<open>from\<close> of
  \<open>mergeFrom(object)\<close>, and the store folds the data into the live document.
\<close>

definition Client_Patch :: "ClientState \<Rightarrow> json \<Rightarrow> json \<Rightarrow> error + ClientState" where
  "Client_Patch c resource object =
     (case ObjectKeyFromObject resource of
        Inl err \<Rightarrow> Inl err
      | Inr key \<Rightarrow>
     (case computePatch object resource of
        Inl err \<Rightarrow> Inl err
      | Inr data \<Rightarrow>
     (case faults c VPatch key of
        Some err \<Rightarrow> Inl err
      | None \<Rightarrow>
     (case live c key of
        None \<Rightarrow> Inl (NotFound key)
      | Some cur \<Rightarrow> Inr (c\<lparr> live := (live c)(key \<mapsto> foldApply cur data) \<rparr>)))))"

text \<open>
  Modelled from the spec: \<open>kubernetes.ReplaceResources\<close>, the \<open>replaceAll\<close> of section
  4.2: a create-or-update of each resource in order, which stops at the first failure.
\<close>

fun ReplaceResources :: "ClientState \<Rightarrow> json list \<Rightarrow> error option \<times> ClientState" where
  "ReplaceResources c [] = (None, c)"
| "ReplaceResources c (resource # rest) =
     (case ObjectKeyFromObject resource of
        Inl err \<Rightarrow> (Some err, c)
      | Inr key \<Rightarrow>
     (case faults c VReplace key of
        Some err \<Rightarrow> (Some err, c)
      | None \<Rightarrow> ReplaceResources (c\<lparr> live := (live c)(key \<mapsto> resource) \<rparr>) rest))"

subsection \<open>The trait\<close>

text \<open>
  Modelled from the spec: the phase constants of package \<open>v1alpha1\<close> and the type
  \<open>Environment\<close> are declared outside the source. A phase is a string; the environment
  carries the integration with its phase, the desired resources, the client and the queue
  of post actions. A post action is a Go closure over the environment; the two closures
  that \<open>Apply\<close> creates are the two values of \<open>PostAction\<close>, and \<open>run\<close> is the
  body of each.
\<close>

type_synonym IntegrationPhase = string

definition IntegrationPhaseInitialization :: IntegrationPhase where
  "IntegrationPhaseInitialization = ''Initialization''"

definition IntegrationPhaseDeploying :: IntegrationPhase where
  "IntegrationPhaseDeploying = ''Deploying''"

definition IntegrationPhaseRunning :: IntegrationPhase where
  "IntegrationPhaseRunning = ''Running''"

record IntegrationStatus =
  Phase :: IntegrationPhase

record Integration =
  Status :: IntegrationStatus

datatype PostAction = ReplaceAction | PatchAction

record Environment =
  Integration :: Integration
  Resources :: "json list"
  Client :: ClientState
  PostActions :: "PostAction list"

text \<open>
  Modelled from the spec: \<open>Environment.IntegrationInPhase\<close>, true when the phase of the
  integration is one of the phases given.
\<close>

fun phase_among :: "IntegrationPhase \<Rightarrow> IntegrationPhase list \<Rightarrow> bool" where
  "phase_among p [] = False"
| "phase_among p (phase # phases) = (if p = phase then True else phase_among p phases)"

definition IntegrationInPhase :: "Environment \<Rightarrow> IntegrationPhase list \<Rightarrow> bool" where
  "IntegrationInPhase e phases = phase_among (Phase (Status (Integration e))) phases"

definition Configure :: "Environment \<Rightarrow> bool \<times> error option" where
  "Configure e =
     (IntegrationInPhase e
        [IntegrationPhaseInitialization, IntegrationPhaseDeploying, IntegrationPhaseRunning],
      None)"

text \<open>
  The closure that \<open>Apply\<close> registers in the phase Running (lines 73 to 92), as a
  function of the store and of the resources left to patch. \<open>object\<close> is the deep copy
  of the resource that \<open>Get\<close> overwrites with the live document.
\<close>

fun patchResources :: "ClientState \<Rightarrow> json list \<Rightarrow> error option \<times> ClientState" where
  "patchResources c [] = (None, c)"
| "patchResources c (resource # rest) =
     (case ObjectKeyFromObject resource of
        Inl err \<Rightarrow> (Some err, c)
      | Inr key \<Rightarrow>
     (case Client_Get c key of
        Inl err \<Rightarrow> (Some err, c)
      | Inr object \<Rightarrow>
     (case Client_Patch c resource object of
        Inl err \<Rightarrow> (Some (Wrap err ''error during patch resource''), c)
      | Inr c' \<Rightarrow> patchResources c' rest)))"

text \<open>
  The bodies of the two closures; the one of the phases Initialization and Deploying is
  lines 64 to 69.
\<close>

fun run :: "PostAction \<Rightarrow> Environment \<Rightarrow> error option \<times> Environment" where
  "run ReplaceAction env =
     (case ReplaceResources (Client env) (Resources env) of
        (Some err, c) \<Rightarrow> (Some (Wrap err ''error during replace resource''), env\<lparr> Client := c \<rparr>)
      | (None, c) \<Rightarrow> (None, env\<lparr> Client := c \<rparr>))"
| "run PatchAction env =
     (case patchResources (Client env) (Resources env) of
        (err, c) \<Rightarrow> (err, env\<lparr> Client := c \<rparr>))"

definition Apply :: "Environment \<Rightarrow> error option \<times> Environment" where
  "Apply e =
     (let phase = Phase (Status (Integration e)) in
      if phase = IntegrationPhaseInitialization \<or> phase = IntegrationPhaseDeploying
      then (None, e\<lparr> PostActions := PostActions e @ [ReplaceAction] \<rparr>)
      else if phase = IntegrationPhaseRunning
      then (None, e\<lparr> PostActions := PostActions e @ [PatchAction] \<rparr>)
      else (None, e))"

subsection \<open>Properties of documents\<close>






subsection \<open>Example data\<close>




text \<open>
  A store that holds the resources \<open>svc\<close> and \<open>other\<close> of namespace \<open>ns\<close> and has no
  resource \<open>gone\<close>, and an environment whose three desired resources are \<open>svc\<close>,
  \<open>gone\<close> and \<open>other\<close>, in this order.
\<close>

definition identified :: "string \<Rightarrow> (string \<times> json) list \<Rightarrow> json" where
  "identified name members =
     JObj ((''metadata'', JObj [(''namespace'', JStr ''ns''), (''name'', JStr name)]) # members)"

definition svc_live :: json where
  "svc_live = identified ''svc'' [(''replicas'', JNum 3), (''status'', JStr ''ready'')]"

definition svc_desired :: json where
  "svc_desired = identified ''svc'' [(''replicas'', JNum 5)]"

definition svc_patched :: json where
  "svc_patched = identified ''svc'' [(''replicas'', JNum 5), (''status'', JStr ''ready'')]"

definition gone_desired :: json where
  "gone_desired = identified ''gone'' [(''replicas'', JNum 1)]"

definition other_live :: json where
  "other_live = identified ''other'' [(''replicas'', JNum 1)]"

definition other_desired :: json where
  "other_desired = identified ''other'' [(''replicas'', JNum 2)]"

definition no_faults :: "verb \<Rightarrow> ObjectKey \<Rightarrow> error option" where
  "no_faults v key = None"

definition example_client :: ClientState where
  "example_client =
     \<lparr> live = [(''ns'', ''svc'') \<mapsto> svc_live, (''ns'', ''other'') \<mapsto> other_live],
       faults = no_faults \<rparr>"

definition patched_client :: ClientState where
  "patched_client =
     \<lparr> live = [(''ns'', ''svc'') \<mapsto> svc_patched, (''ns'', ''other'') \<mapsto> other_live],
       faults = no_faults \<rparr>"

definition example_env :: Environment where
  "example_env =
     \<lparr> Integration = \<lparr> Status = \<lparr> Phase = IntegrationPhaseRunning \<rparr> \<rparr>,
       Resources = [svc_desired, gone_desired, other_desired],
       Client = example_client,
       PostActions = [] \<rparr>"

subsection \<open>Folding a delta into a document\<close>





























subsection \<open>The positive patch\<close>





text \<open>
  Claim C10. \<open>Data\<close> writes to no object that existed before the call: every
  reference of the old heap, the \<open>from\<close> object and the target among them, holds the
  same document afterwards. The folding is done in the deep copy, a new object.
\<close>

theorem Data_read_only: "take (length h) (snd (Data h s obj)) = h"
  by (simp add: Data_def Marshal_def DeepCopyObject_def Let_def split: sum.splits)










subsection \<open>The phase dispatcher and the post actions\<close>

lemma phase_among_set: "phase_among p phases \<longleftrightarrow> p \<in> set phases"
  by (induction phases) auto

text \<open>
  Claim C9. \<open>Configure\<close> answers true exactly when the phase of the integration is
  Initialization, Deploying or Running, false for every other phase, and its error is
  always nil.
\<close>

theorem Configure_applicable:
  "Configure e =
     (Phase (Status (Integration e)) \<in>
        {IntegrationPhaseInitialization, IntegrationPhaseDeploying, IntegrationPhaseRunning},
      None)"
  by (auto simp: Configure_def IntegrationInPhase_def phase_among_set)

text \<open>
  Claim C5. One call of \<open>Apply\<close> appends to the post actions the replacer alone in the
  phases Initialization and Deploying, the patch applier alone in the phase Running, and
  nothing in any other phase; it changes nothing else of the environment and returns no
  error. The action registered depends on the phase only.
\<close>

theorem Apply_registers_by_phase:
  "Apply e =
     (None,
      e\<lparr> PostActions := PostActions e @
           (if Phase (Status (Integration e)) \<in>
                 {IntegrationPhaseInitialization, IntegrationPhaseDeploying}
            then [ReplaceAction]
            else if Phase (Status (Integration e)) = IntegrationPhaseRunning
            then [PatchAction]
            else []) \<rparr>)"
  by (simp add: Apply_def Let_def)

lemma patchResources_append:
  "patchResources c (xs @ ys) =
     (case patchResources c xs of
        (None, c') \<Rightarrow> patchResources c' ys
      | (Some err, c') \<Rightarrow> (Some err, c'))"
  by (induction xs arbitrary: c) (auto split: sum.splits option.splits prod.splits)

lemma patchResources_step:
  "patchResources c (resource # rest) =
     (case patchResources c [resource] of
        (None, c') \<Rightarrow> patchResources c' rest
      | (Some err, c') \<Rightarrow> (Some err, c'))"
  using patchResources_append [of c "[resource]" rest] by simp

lemma patchResources_failed_state:
  "fst (patchResources c [resource]) = Some err \<Longrightarrow> patchResources c [resource] = (Some err, c)"
  by (auto split: sum.splits)

lemma patchResources_failed_stage:
  "fst (patchResources c [resource]) = Some err \<Longrightarrow>
     ObjectKeyFromObject resource = Inl err \<or>
     (\<exists>key. ObjectKeyFromObject resource = Inr key \<and> Client_Get c key = Inl err) \<or>
     (\<exists>key object e. ObjectKeyFromObject resource = Inr key \<and> Client_Get c key = Inr object \<and>
        Client_Patch c resource object = Inl e \<and> err = Wrap e ''error during patch resource'')"
  by (auto split: sum.splits)

text \<open>
  Claim C8. The patch action goes through the resources in order. When the resources
  before position \<open>i\<close> have been patched, leaving the store \<open>c1\<close>, and the resource at
  \<open>i\<close> fails, at identity resolution, at the fetch of the live resource or at the patch,
  the action returns that error at once: the store is \<open>c1\<close>, whatever resources
  follow.
\<close>

theorem patchResources_stops_at_first_error:
  assumes "patchResources c pre = (None, c1)"
    and "fst (patchResources c1 [resource]) = Some err"
  shows "patchResources c (pre @ resource # post) = (Some err, c1) \<and>
         (ObjectKeyFromObject resource = Inl err \<or>
          (\<exists>key. ObjectKeyFromObject resource = Inr key \<and> Client_Get c1 key = Inl err) \<or>
          (\<exists>key object e. ObjectKeyFromObject resource = Inr key \<and>
             Client_Get c1 key = Inr object \<and> Client_Patch c1 resource object = Inl e \<and>
             err = Wrap e ''error during patch resource''))"
proof
  have "patchResources c1 (resource # post) = (Some err, c1)"
    using patchResources_failed_state [OF assms(2)]
    by (subst patchResources_step) simp
  with assms(1) show "patchResources c (pre @ resource # post) = (Some err, c1)"
    by (simp add: patchResources_append)
next
  from assms(2) show "ObjectKeyFromObject resource = Inl err \<or>
          (\<exists>key. ObjectKeyFromObject resource = Inr key \<and> Client_Get c1 key = Inl err) \<or>
          (\<exists>key object e. ObjectKeyFromObject resource = Inr key \<and>
             Client_Get c1 key = Inr object \<and> Client_Patch c1 resource object = Inl e \<and>
             err = Wrap e ''error during patch resource'')"
    by (rule patchResources_failed_stage)
qed

lemma example_first_patched:
  "patchResources example_client [svc_desired] = (None, patched_client)"
  by (simp add: example_client_def patched_client_def svc_desired_def svc_live_def
        svc_patched_def other_live_def identified_def ObjectKeyFromObject_def Client_Get_def
        Client_Patch_def no_faults_def computePatch_def Data_def Marshal_def
        DeepCopyObject_def mergeFrom_def fun_upd_twist)

lemma example_second_missing:
  "fst (patchResources patched_client [gone_desired]) = Some (NotFound (''ns'', ''gone''))"
  by (simp add: patched_client_def gone_desired_def identified_def ObjectKeyFromObject_def
        Client_Get_def no_faults_def)

theorem patchResources_stops_at_first_error_witness:
  "patchResources example_client [svc_desired] = (None, patched_client) \<and>
   fst (patchResources patched_client [gone_desired]) = Some (NotFound (''ns'', ''gone'')) \<and>
   patchResources example_client ([svc_desired] @ gone_desired # [other_desired]) =
     (Some (NotFound (''ns'', ''gone'')), patched_client) \<and>
   live patched_client (''ns'', ''svc'') = Some svc_patched \<and>
   live patched_client (''ns'', ''other'') = Some other_live"
  using patchResources_stops_at_first_error
          [OF example_first_patched example_second_missing, of "[other_desired]"]
        example_first_patched example_second_missing
  by (simp add: patched_client_def)

text \<open>
  Claim C7, as amended. In the patch action the error of the identity resolution and the
  error of the fetch of the live resource are returned as they are; only the error of the
  patch call is wrapped, with \<open>error during patch resource\<close>. The error of the replace
  action is wrapped with \<open>error during replace resource\<close>. No error is dropped: the
  action returns nil only if every step succeeded.
\<close>

theorem post_action_errors:
  assumes "patchResources (Client env) pre = (None, c1)"
    and "Resources env = pre @ resource # post"
  shows "fst (run PatchAction env) =
           (case ObjectKeyFromObject resource of
              Inl err \<Rightarrow> Some err
            | Inr key \<Rightarrow>
           (case Client_Get c1 key of
              Inl err \<Rightarrow> Some err
            | Inr object \<Rightarrow>
           (case Client_Patch c1 resource object of
              Inl err \<Rightarrow> Some (Wrap err ''error during patch resource'')
            | Inr c2 \<Rightarrow> fst (patchResources c2 post)))) \<and>
         fst (run ReplaceAction env) =
           (case fst (ReplaceResources (Client env) (Resources env)) of
              None \<Rightarrow> None
            | Some err \<Rightarrow> Some (Wrap err ''error during replace resource''))"
  using assms
  by (auto simp: patchResources_append split: sum.splits option.splits prod.splits)

theorem post_action_errors_witness:
  "patchResources (Client example_env) [svc_desired] = (None, patched_client) \<and>
   Resources example_env = [svc_desired] @ gone_desired # [other_desired] \<and>
   ObjectKeyFromObject gone_desired = Inr (''ns'', ''gone'') \<and>
   Client_Get patched_client (''ns'', ''gone'') = Inl (NotFound (''ns'', ''gone'')) \<and>
   fst (run PatchAction example_env) = Some (NotFound (''ns'', ''gone''))"
proof -
  have c: "Client example_env = example_client"
    and r: "Resources example_env = [svc_desired] @ gone_desired # [other_desired]"
    by (simp_all add: example_env_def)
  have p: "patchResources (Client example_env) [svc_desired] = (None, patched_client)"
    using example_first_patched c by simp
  have k: "ObjectKeyFromObject gone_desired = Inr (''ns'', ''gone'')"
    by (simp add: gone_desired_def identified_def ObjectKeyFromObject_def)
  have g: "Client_Get patched_client (''ns'', ''gone'') = Inl (NotFound (''ns'', ''gone''))"
    by (simp add: Client_Get_def patched_client_def no_faults_def)
  from post_action_errors [OF p r] k g p r show ?thesis by simp
qed

lemma example_run:
  "patchResources example_client [svc_desired, gone_desired, other_desired] =
     (Some (NotFound (''ns'', ''gone'')), patched_client)"
proof -
  have "patchResources example_client [svc_desired, gone_desired, other_desired] =
        patchResources example_client ([svc_desired] @ gone_desired # [other_desired])"
    by (simp only: append.simps)
  also have "\<dots> = patchResources patched_client (gone_desired # [other_desired])"
    by (simp only: patchResources_append example_first_patched prod.case option.case)
  also have "\<dots> = (Some (NotFound (''ns'', ''gone'')), patched_client)"
    by (simp add: patched_client_def gone_desired_def identified_def ObjectKeyFromObject_def
          Client_Get_def no_faults_def)
  finally show ?thesis .
qed

text \<open>
  The second resource of the example is missing from the store: the patch action returns
  the \<open>NotFound\<close> of the fetch without the tag of the patch stage.
\<close>

theorem post_action_errors_counterexample:
  "Client_Get (Client example_env) (''ns'', ''gone'') = Inl (NotFound (''ns'', ''gone'')) \<and>
   fst (run PatchAction example_env) = Some (NotFound (''ns'', ''gone'')) \<and>
   fst (run PatchAction example_env) \<noteq>
     Some (Wrap (NotFound (''ns'', ''gone'')) ''error during patch resource'')"
proof -
  have "Client_Get example_client (''ns'', ''gone'') = Inl (NotFound (''ns'', ''gone''))"
    by (simp add: Client_Get_def example_client_def no_faults_def)
  moreover have "fst (run PatchAction example_env) = Some (NotFound (''ns'', ''gone''))"
    by (simp add: example_env_def example_run del: patchResources.simps)
  ultimately show ?thesis
    by (simp add: example_env_def)
qed

end
